theory Spec2Isabelle
  imports Main "HOL-Library.Multiset" "HOL-Library.Char_ord" "HOL-Library.List_Lexorder"
    "HOL-Library.Product_Lexorder"
begin

section \<open>Python values used by the request handlers of \<^verbatim>\<open>app.py\<close>\<close>

text \<open>
  Strings are lists of characters and every character operation below is the ASCII one:
  the names, units and categories of the catalogue are ASCII text, and SQLite's
  \<^verbatim>\<open>lower()\<close> (the default engine of \<^verbatim>\<open>app.py\<close>) folds ASCII letters only.
\<close>

datatype py_error =
    ValueError          \<comment> \<open>\<^verbatim>\<open>int()\<close> of a malformed literal or of NaN\<close>
  | TypeError           \<comment> \<open>an ordering comparison with \<^verbatim>\<open>None\<close>\<close>
  | BadRequestKeyError  \<comment> \<open>\<^verbatim>\<open>request.form[key]\<close> with the key missing\<close>
  | IntegrityError      \<comment> \<open>a UNIQUE constraint of the schema fails at flush\<close>
  | OverflowError       \<comment> \<open>an integer outside the signed 64-bit range is bound to an INSERT\<close>
  | OperationalError    \<comment> \<open>the database engine refuses a statement: SUM overflows\<close>

definition is_space :: "char \<Rightarrow> bool" where
  \<comment> \<open>\<^verbatim>\<open>str.isspace\<close> on ASCII: tab, LF, VT, FF, CR, FS, GS, RS, US and the blank\<close>
  "is_space c = (let n = (of_char c :: nat) in (9 \<le> n \<and> n \<le> 13) \<or> (28 \<le> n \<and> n \<le> 32))"

definition strip :: "string \<Rightarrow> string" where
  \<comment> \<open>\<^verbatim>\<open>s.strip()\<close>\<close>
  "strip s = rev (dropWhile is_space (rev (dropWhile is_space s)))"

definition lower_char :: "char \<Rightarrow> char" where
  "lower_char c =
     (let n = (of_char c :: nat) in if 65 \<le> n \<and> n \<le> 90 then char_of (n + 32) else c)"

definition lower :: "string \<Rightarrow> string" where
  \<comment> \<open>\<^verbatim>\<open>s.lower()\<close>, and SQL \<^verbatim>\<open>lower(s)\<close>\<close>
  "lower s = map lower_char s"

fun split_acc :: "string \<Rightarrow> string \<Rightarrow> string list" where
  "split_acc cur [] = (if cur = [] then [] else [cur])"
| "split_acc cur (c # cs) =
     (if is_space c then (if cur = [] then split_acc [] cs else cur # split_acc [] cs)
      else split_acc (cur @ [c]) cs)"

definition split :: "string \<Rightarrow> string list" where
  \<comment> \<open>\<^verbatim>\<open>s.split()\<close>: the maximal runs of non-whitespace characters\<close>
  "split s = split_acc [] s"

fun join :: "string \<Rightarrow> string list \<Rightarrow> string" where
  \<comment> \<open>\<^verbatim>\<open>sep.join(ws)\<close>\<close>
  "join sep [] = []"
| "join sep [w] = w"
| "join sep (w # v # ws) = w @ sep @ join sep (v # ws)"

definition or_None :: "string \<Rightarrow> string option" where
  \<comment> \<open>\<^verbatim>\<open>s or None\<close>: the empty string is falsy\<close>
  "or_None s = (if s = [] then None else Some s)"

definition or_default :: "string \<Rightarrow> string \<Rightarrow> string" where
  \<comment> \<open>\<^verbatim>\<open>s or d\<close>\<close>
  "or_default s d = (if s = [] then d else s)"

definition or_0 :: "int option \<Rightarrow> int" where
  \<comment> \<open>\<^verbatim>\<open>stock or 0\<close>: \<^verbatim>\<open>None\<close> and \<^verbatim>\<open>0\<close> are falsy\<close>
  "or_0 v = (case v of None \<Rightarrow> 0 | Some n \<Rightarrow> n)"

subsection \<open>\<^verbatim>\<open>int()\<close> of a string and \<^verbatim>\<open>str()\<close> of an integer\<close>

definition is_digit :: "char \<Rightarrow> bool" where
  "is_digit c = (let n = (of_char c :: nat) in 48 \<le> n \<and> n \<le> 57)"

fun well_grouped :: "string \<Rightarrow> bool" where
  \<comment> \<open>digits, with single underscores allowed between two digits\<close>
  "well_grouped [] = False"
| "well_grouped [c] = is_digit c"
| "well_grouped (c # d # cs) =
     (is_digit c \<and> (if d = CHR ''_'' then well_grouped cs else well_grouped (d # cs)))"

definition digits_value :: "string \<Rightarrow> int" where
  "digits_value ds = foldl (\<lambda>acc c. 10 * acc + (int (of_char c) - 48)) 0 ds"

definition is_c_space :: "char \<Rightarrow> bool" where
  \<comment> \<open>the whitespace \<^verbatim>\<open>int()\<close> skips: tab, LF, VT, FF, CR and the blank\<close>
  "is_c_space c = (let n = (of_char c :: nat) in (9 \<le> n \<and> n \<le> 13) \<or> n = 32)"

definition py_int :: "string \<Rightarrow> py_error + int" where
  \<comment> \<open>\<^verbatim>\<open>int(s)\<close>: surrounding whitespace, an optional sign, decimal digits, and no more
      than 4300 of them (the limit of CPython on the digits of a decimal string)\<close>
  "py_int s =
     (let t = rev (dropWhile is_c_space (rev (dropWhile is_c_space s)));
          neg = (t \<noteq> [] \<and> hd t = CHR ''-'');
          body = (if t \<noteq> [] \<and> (hd t = CHR ''-'' \<or> hd t = CHR ''+'') then tl t else t)
      in if well_grouped body \<and> length (filter is_digit body) \<le> 4300
         then Inr ((if neg then - 1 else 1) * digits_value (filter (\<lambda>c. c \<noteq> CHR ''_'') body))
         else Inl ValueError)"

fun str_nat :: "nat \<Rightarrow> string" where
  "str_nat n =
     (if n < 10 then [char_of (48 + n)] else str_nat (n div 10) @ [char_of (48 + n mod 10)])"

definition str_int :: "int \<Rightarrow> string" where
  \<comment> \<open>\<^verbatim>\<open>str(n)\<close>\<close>
  "str_int n = (if n < 0 then CHR ''-'' # str_nat (nat (- n)) else str_nat (nat n))"

section \<open>The schema\<close>

text \<open>
  One record for each model class, one field for each column; a nullable column is an
  option. Two classes may not share a field name, so \<^verbatim>\<open>id\<close>, \<^verbatim>\<open>name\<close>,
  \<^verbatim>\<open>contact\<close> and \<^verbatim>\<open>notes\<close> carry the class name. The \<^verbatim>\<open>created_at\<close> column
  (the wall clock at insertion) and the \<^verbatim>\<open>Location\<close> table are read only by the page
  renderers and are left out: a location is the optional key stored in a transaction.
  The store is the SQLite file of the default \<^verbatim>\<open>DATABASE_URL\<close>: an INTEGER column holds
  a signed 64-bit integer, and the foreign keys are declared but not enforced.
\<close>

definition int64 :: "int \<Rightarrow> bool" where
  "int64 n = (- 9223372036854775808 \<le> n \<and> n \<le> 9223372036854775807)"

record Item =
  Item_id :: int
  sku :: "string option"
  Item_name :: string
  category :: "string option"
  unit :: string
  min_qty :: int
  Item_notes :: "string option"

record Donor =
  Donor_id :: int
  Donor_name :: string
  Donor_contact :: "string option"

record Beneficiary =
  Beneficiary_id :: int
  Beneficiary_name :: string
  Beneficiary_contact :: "string option"
  parish :: "string option"

record Transaction =
  Transaction_id :: int
  item_id :: int
  ttype :: string
  qty :: int
  location_id :: "int option"
  donor_id :: "int option"
  beneficiary_id :: "int option"
  Transaction_notes :: "string option"

text \<open>A table is the list of its rows in insertion order.\<close>

record store =
  Items :: "Item list"
  Donors :: "Donor list"
  Beneficiaries :: "Beneficiary list"
  Transactions :: "Transaction list"

definition next_id :: "int list \<Rightarrow> int" where
  \<comment> \<open>the key an \<^verbatim>\<open>INTEGER PRIMARY KEY\<close> column gives a new row: one more than the largest
      (of a table whose keys were all given this way: they stay far below the 64-bit bound)\<close>
  "next_id ids = fold max ids 0 + 1"

section \<open>Utilities\<close>

definition normalize_name :: "string \<Rightarrow> string" where
  \<comment> \<open>\<^verbatim>\<open>" ".join((s or "").strip().lower().split())\<close>\<close>
  "normalize_name s = join '' '' (split (lower (strip s)))"

definition stock_expr :: "Transaction \<Rightarrow> int" where
  \<comment> \<open>\<^verbatim>\<open>case((Transaction.ttype == "IN", Transaction.qty), else_=-Transaction.qty)\<close>\<close>
  "stock_expr t = (if ttype t = ''IN'' then qty t else - qty t)"

datatype sql_failure =
    Integer_overflow   \<comment> \<open>SUM ends in the error "integer overflow"\<close>
  | Real_sum           \<comment> \<open>a summand is REAL and the sum is a float: outside this model\<close>

fun sum_step :: "int \<Rightarrow> int list \<Rightarrow> sql_failure + int" where
  \<comment> \<open>the 64-bit accumulator of SUM: it fails at the first addition that leaves the range\<close>
  "sum_step acc [] = Inr acc"
| "sum_step acc (v # vs) =
     (if int64 (acc + v) then sum_step (acc + v) vs else Inl Integer_overflow)"

definition sql_sum :: "int list \<Rightarrow> sql_failure + int option" where
  \<comment> \<open>SQL \<^verbatim>\<open>SUM\<close> over a group: NULL when the group has no non-NULL value. A summand
      outside the 64-bit range stands for the REAL that \<^verbatim>\<open>-qty\<close> is when
      \<^verbatim>\<open>qty\<close> is the least 64-bit integer.\<close>
  "sql_sum vs =
     (if vs = [] then Inr None
      else if list_ex (\<lambda>v. \<not> int64 v) vs then Inl Real_sum
      else map_sum id Some (sum_step 0 vs))"

definition group_rows :: "store \<Rightarrow> Item \<Rightarrow> Transaction list" where
  \<comment> \<open>the transactions joined to an item, in the order SQLite reads them: that of the
      automatic covering index it builds for the join, on
      \<^verbatim>\<open>(item_id, ttype, qty)\<close> and then the key\<close>
  "group_rows db i =
     sort_key (\<lambda>t. (ttype t, qty t, Transaction_id t))
       (filter (\<lambda>t. item_id t = Item_id i) (Transactions db))"

definition get_stock_query :: "store \<Rightarrow> sql_failure + (Item \<times> int option) list" where
  \<comment> \<open>\<^verbatim>\<open>Item LEFT OUTER JOIN Transaction ON Item.id = Transaction.item_id GROUP BY Item.id\<close>:
      an item without transactions joins one all-NULL row, whose sum is NULL; the
      statement fails when the sum of one group fails\<close>
  "get_stock_query db =
     (let groups = map (\<lambda>i. (i, sql_sum (map stock_expr (group_rows db i)))) (Items db)
      in if list_ex (\<lambda>g. snd g = Inl Integer_overflow) groups then Inl Integer_overflow
         else if list_ex (\<lambda>g. snd g = Inl Real_sum) groups then Inl Real_sum
         else Inr (map (\<lambda>g. (fst g, (case snd g of Inr v \<Rightarrow> v | Inl e \<Rightarrow> None))) groups))"

section \<open>The dashboard\<close>

text \<open>
  The values the dashboard hands to its template, but the ten most recent transactions
  (an ordering by \<^verbatim>\<open>created_at\<close>). The request fails where the stock query fails.
\<close>

record dashboard_view =
  total_items :: nat
  total_in_stock :: int
  low_stock :: "(Item \<times> int) list"

definition dashboard :: "store \<Rightarrow> sql_failure + dashboard_view" where
  "dashboard db =
     (case get_stock_query db of
        Inl e \<Rightarrow> Inl e
      | Inr stock_rows \<Rightarrow>
          let low = filter (\<lambda>(item, stock). min_qty item \<noteq> 0 \<and> stock < min_qty item)
                      (map (\<lambda>(item, stock). (item, or_0 stock)) stock_rows)
          in Inr \<lparr> total_items = length (Items db),
                   total_in_stock = sum_list (map (\<lambda>row. or_0 (snd row)) stock_rows),
                   low_stock = sort_key snd low \<rparr>)"

section \<open>Requests and their outcomes\<close>

text \<open>
  \<^verbatim>\<open>request.form\<close> is a multi-dictionary of strings: the list of the submitted
  (key, value) pairs, a lookup giving the first value of the key.
\<close>

type_synonym form = "(string \<times> string) list"

definition form_get :: "form \<Rightarrow> string \<Rightarrow> string \<Rightarrow> string" where
  \<comment> \<open>\<^verbatim>\<open>request.form.get(key, default)\<close>\<close>
  "form_get f k d = (case map_of f k of None \<Rightarrow> d | Some v \<Rightarrow> v)"

definition form_int :: "form \<Rightarrow> string \<Rightarrow> py_error + int" where
  \<comment> \<open>\<^verbatim>\<open>int(request.form[key])\<close>\<close>
  "form_int f k = (case map_of f k of None \<Rightarrow> Inl BadRequestKeyError | Some v \<Rightarrow> py_int v)"

definition form_opt_int :: "form \<Rightarrow> string \<Rightarrow> py_error + int option" where
  \<comment> \<open>\<^verbatim>\<open>int(request.form[key]) if request.form.get(key) else None\<close>\<close>
  "form_opt_int f k =
     (case map_of f k of
        None \<Rightarrow> Inr None
      | Some v \<Rightarrow> if v = [] then Inr None else map_sum id Some (py_int v))"

datatype page = items_page | dashboard_page | distribute_page | import_items_page
  | item_edit_page int

datatype flash =
    Possible_duplicate          \<comment> \<open>"Possible duplicate found: ... Consider editing that item instead."\<close>
  | Item_created                \<comment> \<open>"Item created."\<close>
  | Intake_recorded             \<comment> \<open>"Intake recorded."\<close>
  | Insufficient_stock          \<comment> \<open>"Insufficient stock to distribute that quantity."\<close>
  | Distribution_recorded       \<comment> \<open>"Distribution recorded."\<close>
  | No_file_uploaded            \<comment> \<open>"No file uploaded."\<close>
  | Import_complete nat nat     \<comment> \<open>"Import complete. Created c, skipped s duplicates."\<close>

datatype result =
    Redirect page flash
  | Raised py_error
  | Float_stock   \<comment> \<open>the stock query gave a float (\<open>Real_sum\<close>): what the handler does with it
                      is outside this model\<close>

text \<open>
  A handler runs inside one database transaction. \<^verbatim>\<open>db.session.flush()\<close> and the
  automatic flush before a query write the pending rows into that transaction;
  only \<^verbatim>\<open>db.session.commit()\<close> makes them durable, and Flask-SQLAlchemy removes the
  session when the request ends, which rolls back whatever was not committed.
  So an outcome has the response, the table contents the open transaction held when
  the handler returned its response (\<open>session\<close>) and the durable contents after the
  request (\<open>database\<close>). An exception unwinds the handler: both are then the
  contents before the request.
\<close>

record outcome =
  result :: result
  session :: store
  database :: store

definition raised :: "store \<Rightarrow> py_error \<Rightarrow> outcome" where
  "raised db e = \<lparr> result = Raised e, session = db, database = db \<rparr>"

section \<open>Creating an item\<close>

definition existing_item :: "store \<Rightarrow> string \<Rightarrow> string option \<Rightarrow> string \<Rightarrow> Item option" where
  \<comment> \<open>\<^verbatim>\<open>Item.query.filter(func.lower(Item.name) == norm, Item.category == category,
      Item.unit == unit).first()\<close>; a comparison with \<^verbatim>\<open>None\<close> is rendered IS NULL\<close>
  "existing_item db norm category' unit' =
     find (\<lambda>i. lower (Item_name i) = norm \<and> category i = category' \<and> unit i = unit') (Items db)"

definition flush_item :: "store \<Rightarrow> Item option \<Rightarrow> py_error + store" where
  \<comment> \<open>the INSERT of a pending \<^verbatim>\<open>Item\<close>: \<^verbatim>\<open>min_qty\<close> must fit the column,
      \<^verbatim>\<open>sku\<close> is UNIQUE (NULLs apart), the key is generated\<close>
  "flush_item s pending =
     (case pending of
        None \<Rightarrow> Inr s
      | Some p \<Rightarrow>
          if \<not> int64 (min_qty p) then Inl OverflowError
          else if sku p \<noteq> None \<and> sku p \<in> set (map sku (Items s)) then Inl IntegrityError
          else Inr (s\<lparr>Items := Items s @ [p\<lparr>Item_id := next_id (map Item_id (Items s))\<rparr>]\<rparr>))"

definition item_new :: "store \<Rightarrow> form \<Rightarrow> outcome" where
  "item_new db f =
     (case map_of f ''name'' of
        None \<Rightarrow> raised db BadRequestKeyError
      | Some raw_name \<Rightarrow>
          let name = strip raw_name;
              category' = or_None (strip (form_get f ''category'' []));
              unit' = or_default (strip (form_get f ''unit'' ''unit'')) ''unit'';
              sku' = or_None (strip (form_get f ''sku'' []));
              m = form_get f ''min_qty'' ''0''
          in case (if m = [] then Inr 0 else py_int m) of
               Inl e \<Rightarrow> raised db e
             | Inr min_qty' \<Rightarrow>
                 let notes = or_None (strip (form_get f ''notes'' []));
                     norm = normalize_name name
                 in case existing_item db norm category' unit' of
                      Some existing \<Rightarrow>
                        \<lparr> result = Redirect (item_edit_page (Item_id existing)) Possible_duplicate,
                          session = db, database = db \<rparr>
                    | None \<Rightarrow>
                        (case flush_item db (Some \<lparr> Item_id = 0, sku = sku', Item_name = name,
                                 category = category', unit = unit', min_qty = min_qty',
                                 Item_notes = notes \<rparr>) of
                           Inl e \<Rightarrow> raised db e
                         | Inr s \<Rightarrow>
                             \<lparr> result = Redirect items_page Item_created,
                               session = s, database = s \<rparr>))"

section \<open>Intake and distribution\<close>

definition flush_transaction :: "store \<Rightarrow> Transaction \<Rightarrow> py_error + store" where
  \<comment> \<open>the INSERT of a \<^verbatim>\<open>Transaction\<close>: the integers the form gave must fit their columns\<close>
  "flush_transaction s tx =
     (if int64 (item_id tx) \<and> int64 (qty tx)
         \<and> (case location_id tx of None \<Rightarrow> True | Some l \<Rightarrow> int64 l)
      then Inr (s\<lparr>Transactions := Transactions s @ [tx]\<rparr>)
      else Inl OverflowError)"

definition intake :: "store \<Rightarrow> form \<Rightarrow> outcome" where
  "intake db f =
     (case form_int f ''item_id'' of Inl e \<Rightarrow> raised db e | Inr item_id' \<Rightarrow>
      case form_int f ''qty'' of Inl e \<Rightarrow> raised db e | Inr qty' \<Rightarrow>
      case form_opt_int f ''location_id'' of Inl e \<Rightarrow> raised db e | Inr location_id' \<Rightarrow>
        let donor_name = or_None (strip (form_get f ''donor_name'' []));
            (donor, s1) =
              (case donor_name of
                 None \<Rightarrow> (None, db)
               | Some n \<Rightarrow>
                   (case find (\<lambda>d. Donor_name d = n) (Donors db) of
                      Some d \<Rightarrow> (Some d, db)
                    | None \<Rightarrow>
                        let d = \<lparr> Donor_id = next_id (map Donor_id (Donors db)),
                                  Donor_name = n, Donor_contact = None \<rparr>
                        in (Some d, db\<lparr>Donors := Donors db @ [d]\<rparr>)));
            notes = or_None (strip (form_get f ''notes'' []));
            tx = \<lparr> Transaction_id = next_id (map Transaction_id (Transactions s1)),
                   item_id = item_id', ttype = ''IN'', qty = qty', location_id = location_id',
                   donor_id = map_option Donor_id donor, beneficiary_id = None,
                   Transaction_notes = notes \<rparr>
        in case flush_transaction s1 tx of
             Inl e \<Rightarrow> raised db e
           | Inr s2 \<Rightarrow>
               \<lparr> result = Redirect dashboard_page Intake_recorded,
                 session = s2, database = s2 \<rparr>)"

definition stock_map :: "(Item \<times> int option) list \<Rightarrow> int \<rightharpoonup> int option" where
  \<comment> \<open>\<^verbatim>\<open>{i.id: s for i, s in rows}\<close>: a later row replaces an earlier one\<close>
  "stock_map rows = map_of (rev (map (\<lambda>(i, v). (Item_id i, v)) rows))"

definition distribute :: "store \<Rightarrow> form \<Rightarrow> outcome" where
  "distribute db f =
     (case form_int f ''item_id'' of Inl e \<Rightarrow> raised db e | Inr item_id' \<Rightarrow>
      case form_int f ''qty'' of Inl e \<Rightarrow> raised db e | Inr qty' \<Rightarrow>
      case form_opt_int f ''location_id'' of Inl e \<Rightarrow> raised db e | Inr location_id' \<Rightarrow>
        let beneficiary_name = or_None (strip (form_get f ''beneficiary_name'' []));
            parish' = or_None (strip (form_get f ''parish'' []));
            (beneficiary, s1) =
              (case beneficiary_name of
                 None \<Rightarrow> (None, db)
               | Some n \<Rightarrow>
                   (case find (\<lambda>b. Beneficiary_name b = n) (Beneficiaries db) of
                      Some b \<Rightarrow> (Some b, db)
                    | None \<Rightarrow>
                        let b = \<lparr> Beneficiary_id = next_id (map Beneficiary_id (Beneficiaries db)),
                                  Beneficiary_name = n, Beneficiary_contact = None,
                                  parish = parish' \<rparr>
                        in (Some b, db\<lparr>Beneficiaries := Beneficiaries db @ [b]\<rparr>)));
            notes = or_None (strip (form_get f ''notes'' []))
        in case get_stock_query s1 of
             Inl Integer_overflow \<Rightarrow> raised db OperationalError
           | Inl Real_sum \<Rightarrow> \<lparr> result = Float_stock, session = s1, database = db \<rparr>
           | Inr rows \<Rightarrow>
               (case stock_map rows item_id' of
                  Some None \<Rightarrow> raised db TypeError
                | other \<Rightarrow>
                    if (case other of Some (Some stock) \<Rightarrow> stock | _ \<Rightarrow> 0) < qty'
                    then \<lparr> result = Redirect distribute_page Insufficient_stock,
                           session = s1, database = db \<rparr>
                    else
                      let tx = \<lparr> Transaction_id = next_id (map Transaction_id (Transactions s1)),
                                 item_id = item_id', ttype = ''OUT'', qty = qty',
                                 location_id = location_id', donor_id = None,
                                 beneficiary_id = map_option Beneficiary_id beneficiary,
                                 Transaction_notes = notes \<rparr>
                      in case flush_transaction s1 tx of
                           Inl e \<Rightarrow> raised db e
                         | Inr s2 \<Rightarrow>
                             \<lparr> result = Redirect dashboard_page Distribution_recorded,
                               session = s2, database = s2 \<rparr>))"

section \<open>Bulk import\<close>

text \<open>
  \<^verbatim>\<open>pd.read_csv\<close> gives each row as a mapping from column name to a cell. A cell is a
  string, an integer, or NaN: the float that \<^verbatim>\<open>read_csv\<close> puts where the field is
  empty (or is one of its missing-value markers). Other floats and booleans are not
  covered.
\<close>

datatype cell = Text string | Number int | NaN

type_synonym row = "(string \<times> cell) list"

definition row_get :: "row \<Rightarrow> string \<Rightarrow> cell \<Rightarrow> cell" where
  \<comment> \<open>\<^verbatim>\<open>row.get(key, default)\<close>\<close>
  "row_get r k d = (case map_of r k of None \<Rightarrow> d | Some c \<Rightarrow> c)"

fun str :: "cell \<Rightarrow> string" where
  \<comment> \<open>\<^verbatim>\<open>str(x)\<close>\<close>
  "str (Text s) = s"
| "str (Number n) = str_int n"
| "str NaN = ''nan''"

fun int_or_0 :: "cell \<Rightarrow> py_error + int" where
  \<comment> \<open>\<^verbatim>\<open>int(x or 0)\<close>: the empty string and 0 are falsy, NaN is truthy and has no integer\<close>
  "int_or_0 (Text s) = (if s = [] then Inr 0 else py_int s)"
| "int_or_0 (Number n) = Inr n"
| "int_or_0 NaN = Inl ValueError"

fun import_rows ::
  "row list \<Rightarrow> store \<Rightarrow> Item option \<Rightarrow> nat \<Rightarrow> nat \<Rightarrow> py_error + (store \<times> Item option \<times> nat \<times> nat)"
where
  "import_rows [] s pending created skipped = Inr (s, pending, created, skipped)"
| "import_rows (r # rows) s pending created skipped =
     (let name = strip (str (row_get r ''name'' (Text [])))
      in if name = [] then import_rows rows s pending created skipped
         else
           let category' = or_None (strip (str (row_get r ''category'' (Text []))));
               unit' = or_default (strip (str (row_get r ''unit'' (Text ''unit'')))) ''unit'';
               sku' = or_None (strip (str (row_get r ''sku'' (Text []))))
           in case int_or_0 (row_get r ''min_qty'' (Number 0)) of
                Inl e \<Rightarrow> Inl e
              | Inr min_qty' \<Rightarrow>
                  let notes = or_None (strip (str (row_get r ''notes'' (Text []))))
                  in case flush_item s pending of
                       Inl e \<Rightarrow> Inl e
                     | Inr s1 \<Rightarrow>
                         (case existing_item s1 (normalize_name name) category' unit' of
                            Some existing \<Rightarrow> import_rows rows s1 None created (skipped + 1)
                          | None \<Rightarrow>
                              import_rows rows s1
                                (Some \<lparr> Item_id = 0, sku = sku', Item_name = name,
                                        category = category', unit = unit',
                                        min_qty = min_qty', Item_notes = notes \<rparr>)
                                (created + 1) skipped))"

definition import_items :: "store \<Rightarrow> row list option \<Rightarrow> outcome" where
  \<comment> \<open>the argument is the uploaded file as \<^verbatim>\<open>read_csv\<close> parsed it, \<open>None\<close> without a file\<close>
  "import_items db file =
     (case file of
        None \<Rightarrow> \<lparr> result = Redirect import_items_page No_file_uploaded,
                  session = db, database = db \<rparr>
      | Some df \<Rightarrow>
          (case import_rows df db None 0 0 of
             Inl e \<Rightarrow> raised db e
           | Inr (s, pending, created, skipped) \<Rightarrow>
               (case flush_item s pending of
                  Inl e \<Rightarrow> raised db e
                | Inr s' \<Rightarrow>
                    \<lparr> result = Redirect items_page (Import_complete created skipped),
                      session = s', database = s' \<rparr>)))"

section \<open>The balance of the specification, and stores to evaluate on\<close>

definition ledger_sum :: "store \<Rightarrow> int \<Rightarrow> string \<Rightarrow> int" where
  \<comment> \<open>the specification's \<open>\<Sum>(qty where direction = d)\<close> over the entries of item \<open>k\<close>\<close>
  "ledger_sum db k d =
     sum_list (map qty (filter (\<lambda>t. item_id t = k \<and> ttype t = d) (Transactions db)))"

definition ledger_bounded :: "store \<Rightarrow> bool" where
  \<comment> \<open>for every item, the absolute quantities of its entries sum to less than \<open>2^63\<close>:
      then no sum of the stock query can leave the 64-bit range, in any order\<close>
  "ledger_bounded db =
     list_all (\<lambda>i. sum_list (map (\<lambda>t. \<bar>qty t\<bar>)
                      (filter (\<lambda>t. item_id t = Item_id i) (Transactions db)))
                    < 9223372036854775808)
       (Items db)"

definition exact_stock :: "store \<Rightarrow> Item \<Rightarrow> int option" where
  \<comment> \<open>the signed sum of an item's entries, NULL when it has none\<close>
  "exact_stock db i =
     (let ts = filter (\<lambda>t. item_id t = Item_id i) (Transactions db)
      in if ts = [] then None else Some (sum_list (map stock_expr ts)))"

definition empty_store :: store where
  "empty_store = \<lparr> Items = [], Donors = [], Beneficiaries = [], Transactions = [] \<rparr>"

definition rice :: Item where
  "rice = \<lparr> Item_id = 1, sku = None, Item_name = ''Rice'', category = Some ''Food'',
            unit = ''kg'', min_qty = 10, Item_notes = None \<rparr>"

definition beans :: Item where
  "beans = \<lparr> Item_id = 2, sku = None, Item_name = ''Beans'', category = Some ''Food'',
             unit = ''kg'', min_qty = 0, Item_notes = None \<rparr>"

definition rice_only :: store where
  "rice_only = \<lparr> Items = [rice], Donors = [], Beneficiaries = [], Transactions = [] \<rparr>"

definition movement :: "int \<Rightarrow> string \<Rightarrow> int \<Rightarrow> Transaction" where
  "movement k d n = \<lparr> Transaction_id = k, item_id = 1, ttype = d, qty = n, location_id = None,
                      donor_id = None, beneficiary_id = None, Transaction_notes = None \<rparr>"

definition rice_stocked :: store where
  "rice_stocked = rice_only\<lparr>Transactions := [movement 1 ''IN'' 20, movement 2 ''OUT'' 5]\<rparr>"


definition rice_and_beans :: store where
  \<comment> \<open>rice with a stock of 15, beans without entries\<close>
  "rice_and_beans = rice_stocked\<lparr>Items := [rice, beans]\<rparr>"




definition out_form :: "string \<Rightarrow> form" where
  "out_form q = [(''item_id'', ''1''), (''qty'', q), (''beneficiary_name'', ''Ann''),
                 (''parish'', ''Kingston'')]"

definition in_form :: "string \<Rightarrow> form" where
  "in_form q = [(''item_id'', ''1''), (''qty'', q), (''donor_name'', ''Bob'')]"

definition red_beans_form :: form where
  "red_beans_form = [(''name'', ''Red  Beans''), (''category'', ''Food''), (''unit'', ''kg'')]"

definition catalogue_row :: "cell \<Rightarrow> row" where
  "catalogue_row n = [(''name'', n), (''category'', Text ''Food''), (''unit'', Text ''kg'')]"

definition priced_row :: "string \<Rightarrow> cell \<Rightarrow> row" where
  "priced_row n m = [(''name'', Text n), (''min_qty'', m)]"

section \<open>The stock query\<close>

lemma find_SomeD: "find P xs = Some x \<Longrightarrow> x \<in> set xs \<and> P x"
  by (induction xs) (auto split: if_splits)


lemma sum_list_map_mset:
  fixes f :: "'a \<Rightarrow> int"
  assumes "mset xs = mset ys"
  shows "sum_list (map f xs) = sum_list (map f ys)"
proof -
  from assms have "mset (map f xs) = mset (map f ys)" by simp
  then have "sum_mset (mset (map f xs)) = sum_mset (mset (map f ys))" by (rule arg_cong)
  then show ?thesis by (simp only: sum_mset_sum_list)
qed

lemma sum_list_abs_nonneg: "0 \<le> sum_list (map abs (vs :: int list))"
  by (induction vs) auto

lemma abs_le_sum_list_abs: "v \<in> set vs \<Longrightarrow> \<bar>v\<bar> \<le> sum_list (map abs (vs :: int list))"
proof (induction vs)
  case Nil
  then show ?case by simp
next
  case (Cons a vs)
  have "0 \<le> sum_list (map abs vs)" by (rule sum_list_abs_nonneg)
  with Cons show ?case by auto
qed

lemma sum_step_Inr: "sum_step a vs = Inr r \<Longrightarrow> r = a + sum_list vs"
proof (induction vs arbitrary: a)
  case Nil
  then show ?case by simp
next
  case (Cons v vs)
  from Cons.prems have "sum_step (a + v) vs = Inr r" by (simp split: if_splits)
  then have "r = a + v + sum_list vs" by (rule Cons.IH)
  then show ?case by simp
qed

lemma sum_step_bounded:
  "\<bar>a\<bar> + sum_list (map abs vs) < 9223372036854775808 \<Longrightarrow> sum_step a vs = Inr (a + sum_list vs)"
proof (induction vs arbitrary: a)
  case Nil
  then show ?case by simp
next
  case (Cons v vs)
  have n: "0 \<le> sum_list (map abs vs)" by (rule sum_list_abs_nonneg)
  have b: "\<bar>a + v\<bar> + sum_list (map abs vs) < 9223372036854775808"
    using Cons.prems by simp
  with n have "int64 (a + v)" unfolding int64_def by arith
  moreover have "sum_step (a + v) vs = Inr (a + v + sum_list vs)" using b by (rule Cons.IH)
  ultimately show ?case by simp
qed

lemma sql_sum_Inr:
  "sql_sum vs = Inr v \<Longrightarrow> v = (if vs = [] then None else Some (sum_list vs))"
proof (cases "sum_step 0 vs")
  case (Inl e)
  then show "sql_sum vs = Inr v \<Longrightarrow> ?thesis"
    by (simp add: sql_sum_def split: if_splits)
next
  case (Inr r)
  then have "r = sum_list vs" using sum_step_Inr[of 0 vs r] by simp
  with Inr show "sql_sum vs = Inr v \<Longrightarrow> ?thesis"
    by (auto simp: sql_sum_def split: if_splits)
qed

lemma sql_sum_bounded:
  assumes "sum_list (map abs vs) < 9223372036854775808"
  shows "sql_sum vs = Inr (if vs = [] then None else Some (sum_list vs))"
proof -
  have "int64 v" if "v \<in> set vs" for v
    using abs_le_sum_list_abs[OF that] assms unfolding int64_def by arith
  then have r: "\<not> list_ex (\<lambda>v. \<not> int64 v) vs" by (auto simp: list_ex_iff)
  have "sum_step 0 vs = Inr (0 + sum_list vs)"
    by (rule sum_step_bounded) (use assms in simp)
  with r show ?thesis by (simp add: sql_sum_def)
qed

lemma group_rows_mset:
  "mset (group_rows db i) = mset (filter (\<lambda>t. item_id t = Item_id i) (Transactions db))"
  by (simp add: group_rows_def)

lemma group_rows_Nil:
  "(group_rows db i = []) = (filter (\<lambda>t. item_id t = Item_id i) (Transactions db) = [])"
  using group_rows_mset[of db i] by (metis mset_zero_iff)

lemma group_rows_sum:
  fixes f :: "Transaction \<Rightarrow> int"
  shows "sum_list (map f (group_rows db i)) =
         sum_list (map f (filter (\<lambda>t. item_id t = Item_id i) (Transactions db)))"
  by (rule sum_list_map_mset) (rule group_rows_mset)

lemma group_sum_Inr:
  assumes "sql_sum (map stock_expr (group_rows db i)) = Inr v"
  shows "v = exact_stock db i"
  using sql_sum_Inr[OF assms]
  by (simp add: exact_stock_def Let_def group_rows_Nil group_rows_sum)

lemma group_sum_bounded:
  assumes "sum_list (map (\<lambda>t. \<bar>qty t\<bar>)
             (filter (\<lambda>t. item_id t = Item_id i) (Transactions db))) < 9223372036854775808"
  shows "sql_sum (map stock_expr (group_rows db i)) = Inr (exact_stock db i)"
proof -
  have "map abs (map stock_expr (group_rows db i)) = map (\<lambda>t. \<bar>qty t\<bar>) (group_rows db i)"
    by (simp add: stock_expr_def)
  then have "sum_list (map abs (map stock_expr (group_rows db i))) < 9223372036854775808"
    using assms by (simp only: group_rows_sum)
  from sql_sum_bounded[OF this] show ?thesis
    by (simp add: exact_stock_def Let_def group_rows_Nil group_rows_sum)
qed

lemma get_stock_query_Inr:
  assumes "get_stock_query db = Inr rows"
  shows "rows = map (\<lambda>i. (i, exact_stock db i)) (Items db)"
proof -
  let ?g = "\<lambda>i. sql_sum (map stock_expr (group_rows db i))"
  have no: "?g i \<noteq> Inl Integer_overflow \<and> ?g i \<noteq> Inl Real_sum" if "i \<in> set (Items db)" for i
    using assms that
    by (auto simp: get_stock_query_def Let_def list_ex_iff split: if_splits)
  have v: "(case ?g i of Inr v \<Rightarrow> v | Inl e \<Rightarrow> None) = exact_stock db i"
    if "i \<in> set (Items db)" for i
  proof (cases "?g i")
    case (Inl e)
    with no[OF that] show ?thesis by (cases e) auto
  next
    case (Inr v)
    with group_sum_Inr[OF Inr] show ?thesis by simp
  qed
  have "rows = map (\<lambda>i. (i, (case ?g i of Inr v \<Rightarrow> v | Inl e \<Rightarrow> None))) (Items db)"
    using assms
    by (auto simp: get_stock_query_def Let_def comp_def split: if_splits)
  also have "\<dots> = map (\<lambda>i. (i, exact_stock db i)) (Items db)"
    using v by (simp cong: map_cong)
  finally show ?thesis .
qed

lemma get_stock_query_bounded:
  assumes "ledger_bounded db"
  shows "get_stock_query db = Inr (map (\<lambda>i. (i, exact_stock db i)) (Items db))"
proof -
  let ?g = "\<lambda>i. sql_sum (map stock_expr (group_rows db i))"
  have g: "?g i = Inr (exact_stock db i)" if "i \<in> set (Items db)" for i
    using assms that by (intro group_sum_bounded) (simp add: ledger_bounded_def list_all_iff)
  have "map (\<lambda>i. (i, ?g i)) (Items db) = map (\<lambda>i. (i, Inr (exact_stock db i))) (Items db)"
    using g by (simp cong: map_cong)
  then show ?thesis
    by (simp add: get_stock_query_def Let_def list_ex_iff comp_def)
qed







section \<open>The low-stock flag\<close>


lemma dashboard_Inr:
  assumes "get_stock_query db = Inr rows"
  shows "\<exists>view. dashboard db = Inr view
           \<and> set (low_stock view) =
               {(i, or_0 v) | i v. (i, v) \<in> set rows \<and> min_qty i \<noteq> 0 \<and> or_0 v < min_qty i}"
  using assms by (auto simp: dashboard_def Let_def)




text \<open>
  Claim C5, as the code has it. For an item of the catalogue without ledger entries the
  stock query, where it returns, carries NULL and not 0; the dashboard reads that NULL
  as the balance 0 (\<^verbatim>\<open>stock or 0\<close>) and lists the item as low, with stock 0, if and only
  if its \<open>min_qty\<close> is greater than 0. The query returns whenever the ledger is bounded.
\<close>

theorem no_entries_balance_and_flag:
  assumes "i \<in> set (Items db)" and "\<forall>t\<in>set (Transactions db). item_id t \<noteq> Item_id i"
  shows "(\<forall>rows. get_stock_query db = Inr rows \<longrightarrow>
            (i, None) \<in> set rows \<and> (\<forall>v. (i, v) \<in> set rows \<longrightarrow> v = None \<and> or_0 v = 0)
            \<and> (\<exists>view. dashboard db = Inr view
                 \<and> (\<forall>s. (i, s) \<in> set (low_stock view) \<longrightarrow> s = 0)
                 \<and> ((i, 0) \<in> set (low_stock view) \<longleftrightarrow> 0 < min_qty i)))
       \<and> (ledger_bounded db \<longrightarrow> (\<exists>rows. get_stock_query db = Inr rows))"
proof -
  have A: "(i, None) \<in> set rows \<and> (\<forall>v. (i, v) \<in> set rows \<longrightarrow> v = None \<and> or_0 v = 0)
            \<and> (\<exists>view. dashboard db = Inr view
                 \<and> (\<forall>s. (i, s) \<in> set (low_stock view) \<longrightarrow> s = 0)
                 \<and> ((i, 0) \<in> set (low_stock view) \<longleftrightarrow> 0 < min_qty i))"
    if q: "get_stock_query db = Inr rows" for rows
  proof -
  have e: "exact_stock db i = None"
    using assms(2) by (simp add: exact_stock_def filter_empty_conv)
  have rows: "rows = map (\<lambda>i. (i, exact_stock db i)) (Items db)"
    using q by (rule get_stock_query_Inr)
  have m: "(i, None) \<in> set rows" using assms(1) e unfolding rows by force
  have n: "v = None" if "(i, v) \<in> set rows" for v
    using that e unfolding rows by auto
  have a: "\<forall>v. (i, v) \<in> set rows \<longrightarrow> v = None \<and> or_0 v = 0"
  proof (intro allI impI)
    fix v assume "(i, v) \<in> set rows"
    then have "v = None" by (rule n)
    then show "v = None \<and> or_0 v = 0" by (simp add: or_0_def)
  qed
  from dashboard_Inr[OF q] obtain view where v: "dashboard db = Inr view"
    "set (low_stock view) =
       {(i, or_0 v) | i v. (i, v) \<in> set rows \<and> min_qty i \<noteq> 0 \<and> or_0 v < min_qty i}"
    by blast
  have c: "\<forall>s. (i, s) \<in> set (low_stock view) \<longrightarrow> s = 0"
  proof (intro allI impI)
    fix s assume "(i, s) \<in> set (low_stock view)"
    then obtain w where w: "(i, w) \<in> set rows" "s = or_0 w" unfolding v(2) by auto
    from w(1) have "w = None" by (rule n)
    with w(2) show "s = 0" by (simp add: or_0_def)
  qed
  have d: "(i, 0) \<in> set (low_stock view) \<longleftrightarrow> 0 < min_qty i"
  proof
    assume "(i, 0) \<in> set (low_stock view)"
    then show "0 < min_qty i" unfolding v(2) by auto
  next
    assume "0 < min_qty i"
    then have "(i, None) \<in> set rows \<and> min_qty i \<noteq> 0 \<and> or_0 None < min_qty i"
      using m by (simp add: or_0_def)
    then have "(i, or_0 None) \<in> set (low_stock view)" unfolding v(2) by blast
    then show "(i, 0) \<in> set (low_stock view)" by (simp add: or_0_def)
  qed
  from v(1) c d have "\<exists>view. dashboard db = Inr view
                 \<and> (\<forall>s. (i, s) \<in> set (low_stock view) \<longrightarrow> s = 0)
                 \<and> ((i, 0) \<in> set (low_stock view) \<longleftrightarrow> 0 < min_qty i)" by blast
  with m a show ?thesis by blast
  qed
  have B: "\<exists>rows. get_stock_query db = Inr rows" if "ledger_bounded db"
    using get_stock_query_bounded[OF that] by blast
  from A B show ?thesis by blast
qed

theorem no_entries_witness:
  "rice \<in> set (Items rice_only) \<and> Transactions rice_only = [] \<and> ledger_bounded rice_only
   \<and> get_stock_query rice_only = Inr [(rice, None)]
   \<and> 0 < min_qty rice
   \<and> (\<exists>view. dashboard rice_only = Inr view \<and> (rice, 0) \<in> set (low_stock view))"
proof -
  have h1: "rice \<in> set (Items rice_only)" by (simp add: rice_only_def)
  have h2: "\<forall>t\<in>set (Transactions rice_only). item_id t \<noteq> Item_id rice"
    by (simp add: rice_only_def)
  have h3: "0 < min_qty rice" by (simp add: rice_def)
  have h4: "Transactions rice_only = []" by (simp add: rice_only_def)
  have h5: "ledger_bounded rice_only" by code_simp
  note t = no_entries_balance_and_flag[OF h1 h2]
  from t h5 obtain rows where r: "get_stock_query rice_only = Inr rows" by blast
  with t have "(rice, None) \<in> set rows" "\<forall>v. (rice, v) \<in> set rows \<longrightarrow> v = None \<and> or_0 v = 0"
    by blast+
  moreover have "get_stock_query rice_only = Inr [(rice, None)]" by code_simp
  ultimately have q: "get_stock_query rice_only = Inr [(rice, None)]" by simp
  from t r h3 have "\<exists>view. dashboard rice_only = Inr view \<and> (rice, 0) \<in> set (low_stock view)"
    by blast
  with h1 h3 h4 h5 q show ?thesis by blast
qed

text \<open>
  Where C5 as written fails: rice has a stock of 15 and beans has no entry. The value
  the stock query derives for beans is NULL, not 0, and a distribution of beans does
  not find a balance it can compare.
\<close>

theorem no_entries_null_counterexample:
  "get_stock_query rice_and_beans = Inr [(rice, Some 15), (beans, None)]
   \<and> (beans, Some 0) \<notin> set [(rice, Some (15::int)), (beans, None)]
   \<and> result (distribute rice_and_beans [(''item_id'', ''2''), (''qty'', ''1'')])
       = Raised TypeError"
  by code_simp

section \<open>Intake\<close>

text \<open>
  Claim C3, as the code has it. \<open>intake\<close> does not look at the sign of the quantity:
  whenever the item, the quantity and the location of the form are read as integers that
  fit a 64-bit column, it commits exactly one new IN entry carrying that quantity, and
  one new donor when a donor name is given that no donor has. When one of the integers
  does not fit, the INSERT raises and nothing is committed.
\<close>

theorem intake_appends:
  assumes "form_int f ''item_id'' = Inr i" and "form_int f ''qty'' = Inr q"
    and "form_opt_int f ''location_id'' = Inr l"
  shows "(int64 i \<and> int64 q \<and> (case l of None \<Rightarrow> True | Some k \<Rightarrow> int64 k) \<longrightarrow>
            result (intake db f) = Redirect dashboard_page Intake_recorded
          \<and> (\<exists>tx. Transactions (database (intake db f)) = Transactions db @ [tx]
                 \<and> item_id tx = i \<and> ttype tx = ''IN'' \<and> qty tx = q \<and> location_id tx = l)
          \<and> (case or_None (strip (form_get f ''donor_name'' [])) of
                None \<Rightarrow> Donors (database (intake db f)) = Donors db
              | Some n \<Rightarrow>
                  if \<exists>d\<in>set (Donors db). Donor_name d = n
                  then Donors (database (intake db f)) = Donors db
                  else \<exists>d. Donors (database (intake db f)) = Donors db @ [d]
                         \<and> Donor_name d = n \<and> Donor_contact d = None))
       \<and> (\<not> (int64 i \<and> int64 q \<and> (case l of None \<Rightarrow> True | Some k \<Rightarrow> int64 k)) \<longrightarrow>
            intake db f = \<lparr> result = Raised OverflowError, session = db, database = db \<rparr>)"
proof (cases "or_None (strip (form_get f ''donor_name'' []))")
  case None
  then show ?thesis
    by (simp add: intake_def assms Let_def flush_transaction_def raised_def)
next
  case (Some n)
  show ?thesis
  proof (cases "find (\<lambda>d. Donor_name d = n) (Donors db)")
    case None
    then have "\<not> (\<exists>d\<in>set (Donors db). Donor_name d = n)" by (simp add: find_None_iff)
    with None Some show ?thesis
      by (simp add: intake_def assms Let_def flush_transaction_def raised_def)
  next
    case (Some d)
    then have "\<exists>d\<in>set (Donors db). Donor_name d = n" using find_SomeD by fastforce
    with Some \<open>or_None (strip (form_get f ''donor_name'' [])) = Some n\<close> show ?thesis
      by (simp add: intake_def assms Let_def flush_transaction_def raised_def)
  qed
qed

theorem intake_appends_witness:
  "form_int (in_form ''20'') ''item_id'' = Inr 1 \<and> form_int (in_form ''20'') ''qty'' = Inr 20
   \<and> form_opt_int (in_form ''20'') ''location_id'' = Inr None
   \<and> int64 1 \<and> int64 20
   \<and> result (intake rice_only (in_form ''20'')) = Redirect dashboard_page Intake_recorded
   \<and> (\<exists>tx. Transactions (database (intake rice_only (in_form ''20''))) = Transactions rice_only @ [tx]
          \<and> item_id tx = 1 \<and> ttype tx = ''IN'' \<and> qty tx = 20 \<and> location_id tx = None)"
proof -
  have h1: "form_int (in_form ''20'') ''item_id'' = Inr 1" by code_simp
  have h2: "form_int (in_form ''20'') ''qty'' = Inr 20" by code_simp
  have h3: "form_opt_int (in_form ''20'') ''location_id'' = Inr None" by code_simp
  have h4: "int64 1" "int64 20" by (simp_all add: int64_def)
  have h5: "int64 1 \<and> int64 20 \<and> (case None of None \<Rightarrow> True | Some k \<Rightarrow> int64 k)"
    using h4 by simp
  from intake_appends[OF h1 h2 h3, of rice_only] h5
  have "result (intake rice_only (in_form ''20'')) = Redirect dashboard_page Intake_recorded
      \<and> (\<exists>tx. Transactions (database (intake rice_only (in_form ''20''))) = Transactions rice_only @ [tx]
          \<and> item_id tx = 1 \<and> ttype tx = ''IN'' \<and> qty tx = 20 \<and> location_id tx = None)"
    by blast
  with h1 h2 h3 h4 show ?thesis by blast
qed

text \<open>
  Where C3 as written fails: an intake of quantity 0 is recorded, and an intake of
  quantity -3 from a new donor records the entry and the donor.
\<close>

theorem intake_zero_counterexample:
  "result (intake rice_only [(''item_id'', ''1''), (''qty'', ''0'')])
     = Redirect dashboard_page Intake_recorded
   \<and> Transactions (database (intake rice_only [(''item_id'', ''1''), (''qty'', ''0'')]))
     = [movement 1 ''IN'' 0]
   \<and> Transactions (database (intake rice_only (in_form ''-3''))) =
        [(movement 1 ''IN'' (- 3))\<lparr>donor_id := Some 1\<rparr>]
   \<and> Donors (database (intake rice_only (in_form ''-3''))) =
        [\<lparr> Donor_id = 1, Donor_name = ''Bob'', Donor_contact = None \<rparr>]"
  by code_simp

text \<open>A quantity of \<open>2^63\<close> does not fit the column: the request raises.\<close>

lemma intake_out_of_range:
  "intake rice_only [(''item_id'', ''1''), (''qty'', ''9223372036854775808'')]
     = \<lparr> result = Raised OverflowError, session = rice_only, database = rice_only \<rparr>"
  by code_simp

section \<open>Distribution\<close>

lemma map_of_keyed:
  "map_of (map (\<lambda>x. (f x, g (f x))) xs) k = (if k \<in> f ` set xs then Some (g k) else None)"
  by (induction xs) auto

lemma stock_map_lookup:
  assumes "get_stock_query db = Inr rows"
  shows "stock_map rows k =
     (if k \<in> Item_id ` set (Items db)
      then Some (let ts = filter (\<lambda>t. item_id t = k) (Transactions db)
                 in if ts = [] then None else Some (sum_list (map stock_expr ts)))
      else None)"
proof -
  let ?g = "\<lambda>k. (let ts = filter (\<lambda>t. item_id t = k) (Transactions db)
                 in if ts = [] then None else Some (sum_list (map stock_expr ts)))"
  have "rows = map (\<lambda>i. (i, exact_stock db i)) (Items db)"
    using assms by (rule get_stock_query_Inr)
  then have "rev (map (\<lambda>(i, v). (Item_id i, v)) rows) =
             map (\<lambda>i. (Item_id i, ?g (Item_id i))) (rev (Items db))"
    by (simp add: rev_map exact_stock_def comp_def)
  then show ?thesis
    unfolding stock_map_def
    using map_of_keyed[of Item_id ?g "rev (Items db)" k]
    by simp
qed

lemma get_stock_query_Beneficiaries:
  "get_stock_query (db\<lparr>Beneficiaries := bs\<rparr>) = get_stock_query db"
  by (simp add: get_stock_query_def group_rows_def)

text \<open>
  Once the form is read, a distribution ends in one of these ways, decided by the stock
  query and by the entry of the item in the dictionary of stocks: the query fails, the
  comparison raises, the request is rejected and nothing is committed, the entry is
  recorded, or the entry does not fit its columns.
\<close>

lemma distribute_parsed:
  assumes "form_int f ''item_id'' = Inr i" and "form_int f ''qty'' = Inr q"
    and "form_opt_int f ''location_id'' = Inr l"
  shows "(get_stock_query db = Inl Integer_overflow
            \<and> distribute db f = raised db OperationalError)
       \<or> (get_stock_query db = Inl Real_sum \<and> result (distribute db f) = Float_stock)
       \<or> (\<exists>rows. get_stock_query db = Inr rows
            \<and> ((stock_map rows i = Some None \<and> distribute db f = raised db TypeError)
              \<or> (stock_map rows i \<noteq> Some None
                  \<and> (case stock_map rows i of Some (Some stock) \<Rightarrow> stock | _ \<Rightarrow> 0) < q
                  \<and> result (distribute db f) = Redirect distribute_page Insufficient_stock
                  \<and> database (distribute db f) = db)
              \<or> (stock_map rows i \<noteq> Some None
                  \<and> \<not> (case stock_map rows i of Some (Some stock) \<Rightarrow> stock | _ \<Rightarrow> 0) < q
                  \<and> (result (distribute db f) = Redirect dashboard_page Distribution_recorded
                      \<or> distribute db f = raised db OverflowError))))"
proof (cases "get_stock_query db")
  case (Inl e)
  show ?thesis
  proof (cases "or_None (strip (form_get f ''beneficiary_name'' []))")
    case None
    with Inl show ?thesis
      by (cases e) (simp_all add: distribute_def assms Let_def)
  next
    case (Some n)
    show ?thesis
    proof (cases "find (\<lambda>b. Beneficiary_name b = n) (Beneficiaries db)")
      case None
      with Some Inl show ?thesis
        by (cases e)
           (simp_all add: distribute_def assms Let_def get_stock_query_Beneficiaries)
    next
      case (Some b)
      with \<open>or_None (strip (form_get f ''beneficiary_name'' [])) = Some n\<close> Inl show ?thesis
        by (cases e) (simp_all add: distribute_def assms Let_def)
    qed
  qed
next
  case (Inr rows)
  show ?thesis
  proof (cases "or_None (strip (form_get f ''beneficiary_name'' []))")
    case None
    with Inr show ?thesis
      by (simp add: distribute_def assms Let_def flush_transaction_def split: option.splits)
  next
    case (Some n)
    show ?thesis
    proof (cases "find (\<lambda>b. Beneficiary_name b = n) (Beneficiaries db)")
      case None
      with Some Inr show ?thesis
        by (simp add: distribute_def assms Let_def flush_transaction_def
              get_stock_query_Beneficiaries split: option.splits)
    next
      case (Some b)
      with \<open>or_None (strip (form_get f ''beneficiary_name'' [])) = Some n\<close> Inr show ?thesis
        by (simp add: distribute_def assms Let_def flush_transaction_def split: option.splits)
    qed
  qed
qed

text \<open>
  On a bounded ledger, a request above the balance is rejected, and leaves the database
  as it was, for an item that has at least one ledger entry and for an item id the
  catalogue does not have.
\<close>

lemma distribute_rejects_over_balance:
  assumes "form_int f ''item_id'' = Inr i" and "form_int f ''qty'' = Inr q"
    and "form_opt_int f ''location_id'' = Inr l"
    and "ledger_bounded db"
    and "(i \<notin> Item_id ` set (Items db) \<and> 0 < q)
       \<or> (i \<in> Item_id ` set (Items db) \<and> (\<exists>t\<in>set (Transactions db). item_id t = i)
          \<and> sum_list (map stock_expr (filter (\<lambda>t. item_id t = i) (Transactions db))) < q)"
  shows "result (distribute db f) = Redirect distribute_page Insufficient_stock
       \<and> database (distribute db f) = db"
proof -
  from get_stock_query_bounded[OF assms(4)]
  obtain rows where r: "get_stock_query db = Inr rows" by blast
  have ne: "(\<exists>t\<in>set (Transactions db). item_id t = i) \<Longrightarrow>
        filter (\<lambda>t. item_id t = i) (Transactions db) \<noteq> []"
    by (simp add: filter_empty_conv)
  have "stock_map rows i \<noteq> Some None
      \<and> (case stock_map rows i of Some (Some stock) \<Rightarrow> stock | _ \<Rightarrow> 0) < q"
    using assms(5) ne by (auto simp: stock_map_lookup[OF r] Let_def)
  then show ?thesis using distribute_parsed[OF assms(1,2,3), of db] r by auto
qed

text \<open>
  Whatever the request, nothing is committed unless the distribution is recorded (the
  outcome with a float for a stock apart, which is not modelled).
\<close>

lemma distribute_writes_only_when_recorded:
  assumes "result (distribute db f) \<noteq> Redirect dashboard_page Distribution_recorded"
    and "result (distribute db f) \<noteq> Float_stock"
  shows "database (distribute db f) = db"
proof (cases "form_int f ''item_id''")
  case (Inl e)
  then show ?thesis by (simp add: distribute_def raised_def)
next
  case i: (Inr i)
  show ?thesis
  proof (cases "form_int f ''qty''")
    case (Inl e)
    then show ?thesis using i by (simp add: distribute_def raised_def)
  next
    case q: (Inr q)
    show ?thesis
    proof (cases "form_opt_int f ''location_id''")
      case (Inl e)
      then show ?thesis using i q by (simp add: distribute_def raised_def)
    next
      case (Inr l)
      from distribute_parsed[OF i q Inr, of db] assms show ?thesis
        by (auto simp: raised_def)
    qed
  qed
qed

text \<open>
  Claim C2, at the input where the code departs from it. The item exists and has no
  ledger entry, so its balance is 0 and the requested 5 exceeds it; the handler does not
  answer with the insufficient-stock message but raises \<open>TypeError\<close> at the comparison.
\<close>

theorem distribute_over_balance_raises:
  "form_int (out_form ''5'') ''qty'' = Inr 5
   \<and> ledger_sum rice_only 1 ''IN'' - ledger_sum rice_only 1 ''OUT'' = 0
   \<and> result (distribute rice_only (out_form ''5'')) = Raised TypeError"
  by code_simp

text \<open>
  Claim C9, at the input where the code departs from it. For an item of the catalogue
  without ledger entries the dictionary built from the stock query holds the key with
  the value \<open>None\<close>, the default 0 of \<open>get\<close> is not used, and the comparison with the
  requested quantity raises \<open>TypeError\<close>.
\<close>

theorem distribute_no_entries_raises:
  "get_stock_query rice_only = Inr [(rice, None)]
   \<and> stock_map [(rice, None)] 1 = Some None
   \<and> distribute rice_only [(''item_id'', ''1''), (''qty'', ''1'')] =
       \<lparr> result = Raised TypeError, session = rice_only, database = rice_only \<rparr>"
  by code_simp

text \<open>
  Claim C10, as the code has it. When a distribution is rejected for insufficient stock
  and the form names a beneficiary that no row has, the new row was flushed into the
  open transaction before the stock check, so the session holds it when the handler
  returns; the handler returns without a commit, so the durable tables are the ones
  before the request.
\<close>

theorem rejected_distribution_rolls_back:
  assumes rej: "result (distribute db f) = Redirect distribute_page Insufficient_stock"
    and name: "or_None (strip (form_get f ''beneficiary_name'' [])) = Some n"
    and new: "\<forall>b\<in>set (Beneficiaries db). Beneficiary_name b \<noteq> n"
  shows "Beneficiaries (session (distribute db f)) =
           Beneficiaries db @ [\<lparr> Beneficiary_id = next_id (map Beneficiary_id (Beneficiaries db)),
             Beneficiary_name = n, Beneficiary_contact = None,
             parish = or_None (strip (form_get f ''parish'' [])) \<rparr>]
       \<and> database (distribute db f) = db"
proof -
  have nf: "find (\<lambda>b. Beneficiary_name b = n) (Beneficiaries db) = None"
    using new by (simp add: find_None_iff)
  obtain i where i: "form_int f ''item_id'' = Inr i"
    using rej by (cases "form_int f ''item_id''") (simp_all add: distribute_def raised_def)
  obtain q where q: "form_int f ''qty'' = Inr q"
    using rej i by (cases "form_int f ''qty''") (simp_all add: distribute_def raised_def)
  obtain l where l: "form_opt_int f ''location_id'' = Inr l"
    using rej i q
    by (cases "form_opt_int f ''location_id''") (simp_all add: distribute_def raised_def)
  show ?thesis
  proof (cases "get_stock_query db")
    case (Inl e)
    with rej show ?thesis
      by (cases e)
         (simp_all add: distribute_def i q l name nf Let_def raised_def
            get_stock_query_Beneficiaries)
  next
    case (Inr rows)
    with rej show ?thesis
      by (simp add: distribute_def i q l name nf Let_def raised_def flush_transaction_def
            get_stock_query_Beneficiaries split: option.splits if_splits)
  qed
qed

theorem rejected_distribution_witness:
  "result (distribute rice_stocked (out_form ''16'')) = Redirect distribute_page Insufficient_stock
   \<and> or_None (strip (form_get (out_form ''16'') ''beneficiary_name'' [])) = Some ''Ann''
   \<and> Beneficiaries rice_stocked = []
   \<and> Beneficiaries (session (distribute rice_stocked (out_form ''16''))) =
        [\<lparr> Beneficiary_id = 1, Beneficiary_name = ''Ann'', Beneficiary_contact = None,
            parish = Some ''Kingston'' \<rparr>]
   \<and> database (distribute rice_stocked (out_form ''16'')) = rice_stocked"
proof -
  have h1: "result (distribute rice_stocked (out_form ''16''))
              = Redirect distribute_page Insufficient_stock"
    by code_simp
  have h2: "or_None (strip (form_get (out_form ''16'') ''beneficiary_name'' [])) = Some ''Ann''"
    by code_simp
  have h3: "\<forall>b\<in>set (Beneficiaries rice_stocked). Beneficiary_name b \<noteq> ''Ann''"
    by (simp add: rice_stocked_def rice_only_def)
  have h4: "Beneficiaries rice_stocked = []" by (simp add: rice_stocked_def rice_only_def)
  have h5: "or_None (strip (form_get (out_form ''16'') ''parish'' [])) = Some ''Kingston''"
    by code_simp
  have h6: "next_id (map Beneficiary_id []) = 1" by (simp add: next_id_def)
  from rejected_distribution_rolls_back[OF h1 h2 h3] h1 h2 h4 h5 h6 show ?thesis by simp
qed

text \<open>
  Where C10 as written fails: the stock is 15, the request asks for 16 and names the new
  beneficiary Ann. The request is rejected and the beneficiary table after it is the
  table before it.
\<close>

theorem rejected_distribution_counterexample:
  "result (distribute rice_stocked (out_form ''16'')) = Redirect distribute_page Insufficient_stock
   \<and> Beneficiaries rice_stocked = []
   \<and> Beneficiaries (database (distribute rice_stocked (out_form ''16''))) = Beneficiaries rice_stocked
   \<and> database (distribute rice_stocked (out_form ''16'')) = rice_stocked"
  by code_simp

section \<open>The duplicate guard\<close>

text \<open>
  Claim C6, at the input where the code departs from it. The guard compares the
  normalized proposed name with the stored names lower-cased only, so a stored name with
  two blanks inside is never matched: the same form submitted twice creates two items.
\<close>

theorem item_new_same_name_twice:
  "result (item_new empty_store red_beans_form) = Redirect items_page Item_created
   \<and> result (item_new (database (item_new empty_store red_beans_form)) red_beans_form)
       = Redirect items_page Item_created
   \<and> map Item_name (Items (database
        (item_new (database (item_new empty_store red_beans_form)) red_beans_form)))
       = [''Red  Beans'', ''Red  Beans'']"
  by code_simp

text \<open>The scenario of the specification, where the guard does what it says.\<close>

lemma item_new_rice_scenario:
  "database (item_new empty_store
      [(''name'', ''Rice''), (''category'', ''Food''), (''unit'', ''kg''), (''min_qty'', ''10'')])
     = rice_only
   \<and> result (item_new rice_only [(''name'', '' rice ''), (''category'', ''Food''), (''unit'', ''kg'')])
       = Redirect (item_edit_page 1) Possible_duplicate
   \<and> result (item_new rice_only [(''name'', ''Rice''), (''category'', ''Food''), (''unit'', ''L'')])
       = Redirect items_page Item_created"
  by code_simp

section \<open>Bulk import\<close>

text \<open>
  Claim C7, at the input where the code departs from it. Three rows: a new item, a
  duplicate of the stored item, and a row whose name field is empty, which
  \<^verbatim>\<open>read_csv\<close> gives as NaN. \<^verbatim>\<open>str\<close> turns NaN into the name "nan", the row is
  not skipped, and the import reports 2 created.
\<close>

theorem import_blank_name_creates_nan:
  "result (import_items rice_only
      (Some [catalogue_row (Text ''Beans''), catalogue_row (Text ''Rice''), catalogue_row NaN]))
     = Redirect items_page (Import_complete 2 1)
   \<and> map Item_name (Items (database (import_items rice_only
      (Some [catalogue_row (Text ''Beans''), catalogue_row (Text ''Rice''), catalogue_row NaN]))))
     = [''Rice'', ''Beans'', ''nan'']"
  by code_simp

text \<open>A name field of blanks is text, and that row is skipped.\<close>

lemma import_whitespace_name_skipped:
  "result (import_items rice_only
      (Some [catalogue_row (Text ''Beans''), catalogue_row (Text ''Rice''),
             catalogue_row (Text ''  '')]))
     = Redirect items_page (Import_complete 1 1)"
  by code_simp

lemma import_rows_aborts:
  assumes "r \<in> set rows" and "strip (str (row_get r ''name'' (Text []))) \<noteq> []"
    and "int_or_0 (row_get r ''min_qty'' (Number 0)) = Inl e"
  shows "\<exists>e'. import_rows rows s pending c k = Inl e'"
  using assms(1)
proof (induction rows arbitrary: s pending c k)
  case Nil
  then show ?case by simp
next
  case (Cons a rows)
  show ?case
  proof (cases "a = r")
    case True
    then show ?thesis using assms(2,3) by (simp add: Let_def)
  next
    case False
    then have "r \<in> set rows" using Cons.prems by simp
    then have ih: "\<And>s pending c k. \<exists>e'. import_rows rows s pending c k = Inl e'"
      by (rule Cons.IH)
    show ?thesis
      by (simp add: Let_def ih split: sum.splits option.splits)
  qed
qed

text \<open>
  Claim C8, as the code has it. A \<open>min_qty\<close> field holding text that is not an integer
  literal is not replaced by 0: \<^verbatim>\<open>int\<close> raises on it, and when the batch has such a
  row with a name, the whole import ends in an exception; nothing of the batch is
  committed and no counts are reported. The field is taken as 0 when the column is
  absent, or the cell is 0 or the empty string.
\<close>

theorem import_aborts_on_malformed_min_qty:
  assumes "r \<in> set rows" and "strip (str (row_get r ''name'' (Text []))) \<noteq> []"
    and "map_of r ''min_qty'' = Some (Text t)" and "t \<noteq> []" and "py_int t = Inl e"
  shows "int_or_0 (row_get r ''min_qty'' (Number 0)) = Inl e
       \<and> (\<exists>e'. import_items db (Some rows)
                 = \<lparr> result = Raised e', session = db, database = db \<rparr>)
       \<and> (map_of r0 ''min_qty'' = None \<or> map_of r0 ''min_qty'' = Some (Number 0)
             \<or> map_of r0 ''min_qty'' = Some (Text [])
           \<longrightarrow> int_or_0 (row_get r0 ''min_qty'' (Number 0)) = Inr 0)"
proof -
  have m: "int_or_0 (row_get r ''min_qty'' (Number 0)) = Inl e"
    using assms(3,4,5) by (simp add: row_get_def)
  from import_rows_aborts[OF assms(1,2) this]
  obtain e' where "import_rows rows db None 0 0 = Inl e'" by blast
  then have a: "import_items db (Some rows) = \<lparr> result = Raised e', session = db, database = db \<rparr>"
    by (simp add: import_items_def raised_def)
  have d: "map_of r0 ''min_qty'' = None \<or> map_of r0 ''min_qty'' = Some (Number 0)
             \<or> map_of r0 ''min_qty'' = Some (Text [])
           \<longrightarrow> int_or_0 (row_get r0 ''min_qty'' (Number 0)) = Inr 0"
    by (auto simp: row_get_def)
  from m a d show ?thesis by blast
qed

theorem import_aborts_witness:
  "priced_row ''Peas'' (Text ''abc'')
     \<in> set [priced_row ''Beans'' (Text ''3''), priced_row ''Peas'' (Text ''abc'')]
   \<and> strip (str (row_get (priced_row ''Peas'' (Text ''abc'')) ''name'' (Text []))) \<noteq> []
   \<and> map_of (priced_row ''Peas'' (Text ''abc'')) ''min_qty'' = Some (Text ''abc'')
   \<and> py_int ''abc'' = Inl ValueError
   \<and> (\<exists>e'. import_items rice_only
              (Some [priced_row ''Beans'' (Text ''3''), priced_row ''Peas'' (Text ''abc'')])
          = \<lparr> result = Raised e', session = rice_only, database = rice_only \<rparr>)"
proof -
  have h1: "priced_row ''Peas'' (Text ''abc'')
     \<in> set [priced_row ''Beans'' (Text ''3''), priced_row ''Peas'' (Text ''abc'')]"
    by simp
  have h2: "strip (str (row_get (priced_row ''Peas'' (Text ''abc'')) ''name'' (Text []))) \<noteq> []"
    by code_simp
  have h3: "map_of (priced_row ''Peas'' (Text ''abc'')) ''min_qty'' = Some (Text ''abc'')"
    by (simp add: priced_row_def)
  have h4: "''abc'' \<noteq> []" by simp
  have h5: "py_int ''abc'' = Inl ValueError" by code_simp
  from import_aborts_on_malformed_min_qty[OF h1 h2 h3 h4 h5, of rice_only] h1 h2 h3 h5
  show ?thesis by blast
qed

text \<open>
  Where C8 as written fails: the second row has the \<open>min_qty\<close> "abc" (so the column is
  read as text). The import raises \<open>ValueError\<close>, and the item of the first row is not in
  the database either.
\<close>

theorem import_malformed_min_qty_counterexample:
  "import_items rice_only (Some [priced_row ''Beans'' (Text ''3''), priced_row ''Peas'' (Text ''abc'')])
     = \<lparr> result = Raised ValueError, session = rice_only, database = rice_only \<rparr>"
  by code_simp

end
